theory Spec2Isabelle
  imports Complex_Main
begin

section \<open>Errors and tensors\<close>

text \<open>
  The source is \<^verbatim>\<open>net_config/audio.py\<close>. Every exception the code can raise is a
  value of \<open>error\<close>:
  \<^item> \<open>NameError\<close>: \<^verbatim>\<open>raise ParameterError(...)\<close> in \<^verbatim>\<open>power_to_db\<close>; the module never
    imports or defines \<^verbatim>\<open>ParameterError\<close>, so evaluating the name is what fails;
  \<^item> \<open>IndexError\<close>: \<^verbatim>\<open>size(0)\<close> of a 0-dimensional tensor, \<^verbatim>\<open>stretch_param[i]\<close> out of range;
  \<^item> \<open>AttributeError\<close>: \<^verbatim>\<open>lengths.float()\<close> when \<^verbatim>\<open>lengths\<close> is \<^verbatim>\<open>None\<close>;
  \<^item> \<open>ZeroDivisionError\<close>: integer \<^verbatim>\<open>//\<close> by zero;
  \<^item> \<open>RuntimeError\<close>: torch refusing a reshape, a broadcast or the maximum of an
    empty tensor.
  \<open>NonFiniteToLong\<close> is not an exception: dividing by a zero rate gives an infinity or
  a NaN, and torch leaves the conversion of such a value to a 64-bit integer
  undefined. The model makes that outcome a value of its own.

  Floating-point numbers are idealised as reals, so rounding, infinities and NaN have no
  counterpart; theorems about values say which inputs they are about.
\<close>

datatype error =
  NameError | IndexError | AttributeError | ZeroDivisionError | RuntimeError | NonFiniteToLong

text \<open>A dense tensor: its shape and its elements in row-major order.\<close>

record tensor =
  shape :: "nat list"
  data :: "real list"

definition wellformed :: "tensor \<Rightarrow> bool" where
  "wellformed t = (length (data t) = prod_list (shape t))"

definition scalar :: "real \<Rightarrow> tensor" where
  \<comment> \<open>\<^verbatim>\<open>torch.tensor(r)\<close> for a Python number: a 0-dimensional tensor\<close>
  "scalar r = \<lparr>shape = [], data = [r]\<rparr>"

definition tmap :: "(real \<Rightarrow> real) \<Rightarrow> tensor \<Rightarrow> tensor" where
  "tmap f t = t\<lparr>data := map f (data t)\<rparr>"

definition log10 :: "real \<Rightarrow> real" where
  "log10 x = log 10 x"

definition clamp_min :: "tensor \<Rightarrow> real \<Rightarrow> tensor" where
  \<comment> \<open>\<^verbatim>\<open>torch.clamp(t, min=m)\<close>\<close>
  "clamp_min t m = tmap (\<lambda>x. max x m) t"

definition tmax :: "tensor \<Rightarrow> error + real" where
  \<comment> \<open>\<^verbatim>\<open>t.max()\<close>: the maximum of all elements; torch raises on an empty tensor\<close>
  "tmax t = (if data t = [] then Inl RuntimeError else Inr (Max (set (data t))))"

subsection \<open>Broadcasting\<close>

definition pad_shape :: "nat \<Rightarrow> nat list \<Rightarrow> nat list" where
  \<comment> \<open>a shape is aligned to the right and filled with 1 on the left\<close>
  "pad_shape n s = replicate (n - length s) 1 @ s"

fun broadcast_dims :: "nat list \<Rightarrow> nat list \<Rightarrow> nat list option" where
  "broadcast_dims [] [] = Some []"
| "broadcast_dims (a # as) (b # bs) =
     (case broadcast_dims as bs of
        None \<Rightarrow> None
      | Some r \<Rightarrow>
          if a = b then Some (a # r)
          else if a = 1 then Some (b # r)
          else if b = 1 then Some (a # r)
          else None)"
| "broadcast_dims _ _ = None"

definition broadcast_shapes :: "nat list \<Rightarrow> nat list \<Rightarrow> nat list option" where
  "broadcast_shapes s1 s2 =
     (let n = max (length s1) (length s2)
      in broadcast_dims (pad_shape n s1) (pad_shape n s2))"

definition rows :: "nat \<Rightarrow> nat \<Rightarrow> 'a list \<Rightarrow> 'a list list" where
  \<comment> \<open>the \<open>k\<close> consecutive pieces of length \<open>n\<close> of a row-major list\<close>
  "rows k n xs = map (\<lambda>i. take n (drop (i * n) xs)) [0..<k]"

fun expand :: "nat list \<Rightarrow> nat list \<Rightarrow> 'a list \<Rightarrow> 'a list" where
  "expand (d # ds) (r # rs) xs =
     (if d = r then concat (map (expand ds rs) (rows d (prod_list ds) xs))
      else concat (replicate r (expand ds rs xs)))"
| "expand _ _ xs = xs"

definition broadcast_op :: "(real \<Rightarrow> real \<Rightarrow> real) \<Rightarrow> tensor \<Rightarrow> tensor \<Rightarrow> error + tensor" where
  \<comment> \<open>an elementwise binary operator of torch, \<^verbatim>\<open>a - b\<close> or \<^verbatim>\<open>a / b\<close>\<close>
  "broadcast_op f a b =
     (case broadcast_shapes (shape a) (shape b) of
        None \<Rightarrow> Inl RuntimeError
      | Some rs \<Rightarrow>
          Inr \<lparr>shape = rs,
               data = map2 f (expand (pad_shape (length rs) (shape a)) rs (data a))
                             (expand (pad_shape (length rs) (shape b)) rs (data b))\<rparr>)"

definition isub :: "tensor \<Rightarrow> tensor \<Rightarrow> error + tensor" where
  \<comment> \<open>\<^verbatim>\<open>a -= b\<close>: in place, so the broadcast result must have the shape of \<open>a\<close>\<close>
  "isub a b =
     (case broadcast_op (\<lambda>x y. x - y) a b of
        Inl e \<Rightarrow> Inl e
      | Inr r \<Rightarrow> if shape r = shape a then Inr r else Inl RuntimeError)"

subsection \<open>Reshaping and reductions along the last axis\<close>

definition reshape :: "tensor \<Rightarrow> int list \<Rightarrow> error + tensor" where
  \<comment> \<open>\<^verbatim>\<open>t.reshape(*dims)\<close>; one dimension may be \<open>-1\<close> and is then inferred\<close>
  "reshape t dims =
     (let known = prod_list (filter (\<lambda>d. d \<noteq> - 1) dims);
          n = int (prod_list (shape t))
      in if 1 < length (filter (\<lambda>d. d = - 1) dims) \<or> (\<exists>d \<in> set dims. d < - 1)
         then Inl RuntimeError
         else if - 1 \<in> set dims then
           (if known = 0 \<or> n mod known \<noteq> 0 then Inl RuntimeError
            else Inr \<lparr>shape = map (\<lambda>d. nat (if d = - 1 then n div known else d)) dims,
                      data = data t\<rparr>)
         else if known \<noteq> n then Inl RuntimeError
         else Inr \<lparr>shape = map nat dims, data = data t\<rparr>)"

definition mean_list :: "real list \<Rightarrow> real" where
  "mean_list xs = sum_list xs / real (length xs)"

definition std_list :: "real list \<Rightarrow> real" where
  \<comment> \<open>\<^verbatim>\<open>torch.std\<close> is the unbiased estimator: it divides by \<open>n - 1\<close>\<close>
  "std_list xs =
     sqrt (sum_list (map (\<lambda>x. (x - mean_list xs)\<^sup>2) xs) / (real (length xs) - 1))"

definition reduce_last :: "(real list \<Rightarrow> real) \<Rightarrow> tensor \<Rightarrow> error + tensor" where
  \<comment> \<open>\<^verbatim>\<open>f(x, dim=-1)\<close> for \<^verbatim>\<open>torch.mean\<close> and \<^verbatim>\<open>torch.std\<close>: the last axis is reduced away\<close>
  "reduce_last f t =
     (if shape t = [] then Inl IndexError
      else Inr \<lparr>shape = butlast (shape t),
                data = map f (rows (prod_list (butlast (shape t))) (last (shape t)) (data t))\<rparr>)"

section \<open>The normalizers\<close>

datatype reference = RefValue real | RefCallable "tensor \<Rightarrow> tensor"

definition power_to_db :: "tensor \<Rightarrow> reference \<Rightarrow> real \<Rightarrow> real option \<Rightarrow> error + tensor" where
  "power_to_db spec ref amin top_db =
     (if amin \<le> 0 then Inl NameError
      else
        let ref_value = (case ref of RefCallable f \<Rightarrow> f spec | RefValue r \<Rightarrow> scalar r);
            log_spec = tmap (\<lambda>x. 10 * log10 x) (clamp_min spec amin)
        in case isub log_spec (tmap (\<lambda>x. 10 * log10 x) (clamp_min ref_value amin)) of
             Inl e \<Rightarrow> Inl e
           | Inr log_spec \<Rightarrow>
               (case top_db of
                  None \<Rightarrow> Inr log_spec
                | Some t \<Rightarrow>
                    if t < 0 then Inl NameError
                    else (case tmax log_spec of
                            Inl e \<Rightarrow> Inl e
                          | Inr m \<Rightarrow> Inr (clamp_min log_spec (m - t)))))"

definition amplitude_to_db :: "tensor \<Rightarrow> reference \<Rightarrow> real \<Rightarrow> real option \<Rightarrow> error + tensor" where
  "amplitude_to_db spec ref amin top_db =
     (let power = tmap (\<lambda>x. x\<^sup>2) spec
      in power_to_db power ref amin top_db)"

definition along_dim :: "(real list \<Rightarrow> real) \<Rightarrow> tensor \<Rightarrow> error + tensor" where
  \<comment> \<open>\<^verbatim>\<open>lambda f, x: f(x, dim=-1).reshape(-1,1,1,1)\<close>\<close>
  "along_dim f x =
     (case reduce_last f x of
        Inl e \<Rightarrow> Inl e
      | Inr r \<Rightarrow> reshape r [- 1, 1, 1, 1])"

definition spec_whiten :: "tensor \<Rightarrow> real \<Rightarrow> error + tensor" where
  "spec_whiten spec eps =
     (let lspec = tmap log10 (tmap (\<lambda>x. x + eps) spec)
      in case shape lspec of
           [] \<Rightarrow> Inl IndexError
         | batch # _ \<Rightarrow>
             (case reshape lspec [int batch, - 1] of
                Inl e \<Rightarrow> Inl e
              | Inr flat \<Rightarrow>
                  (case along_dim mean_list flat of
                     Inl e \<Rightarrow> Inl e
                   | Inr mean \<Rightarrow>
                       (case along_dim std_list flat of
                          Inl e \<Rightarrow> Inl e
                        | Inr std \<Rightarrow>
                            (case broadcast_op (\<lambda>x y. x - y) lspec mean of
                               Inl e \<Rightarrow> Inl e
                             | Inr centred \<Rightarrow> broadcast_op (\<lambda>x y. x / y) centred std)))))"

section \<open>The pipeline\<close>

definition map_err :: "('a \<Rightarrow> error + 'b) \<Rightarrow> 'a list \<Rightarrow> error + 'b list" where
  \<comment> \<open>an elementwise operation that fails as soon as one element fails\<close>
  "map_err f xs =
     foldr (\<lambda>x acc. case f x of
                      Inl e \<Rightarrow> Inl e
                    | Inr y \<Rightarrow> (case acc of Inl e \<Rightarrow> Inl e | Inr ys \<Rightarrow> Inr (y # ys)))
           xs (Inr [])"

definition num_stft_bins :: "int list \<Rightarrow> int \<Rightarrow> int \<Rightarrow> int \<Rightarrow> error + int list" where
  \<comment> \<open>\<^verbatim>\<open>_num_stft_bins\<close>, on a tensor of integer lengths; \<^verbatim>\<open>//\<close> is floor division\<close>
  "num_stft_bins lengths fft_len hop_len pad =
     map_err (\<lambda>l. if hop_len = 0 then Inl ZeroDivisionError
                   else Inr ((l + 2 * pad - fft_len + hop_len) div hop_len)) lengths"

definition to_long :: "real \<Rightarrow> int" where
  \<comment> \<open>\<^verbatim>\<open>.long()\<close> rounds towards zero\<close>
  "to_long x = (if 0 \<le> x then \<lfloor>x\<rfloor> else \<lceil>x\<rceil>)"

definition stretched_length :: "int \<Rightarrow> real \<Rightarrow> error + int" where
  \<comment> \<open>one element of \<^verbatim>\<open>(lengths.float()/rate).long()+1\<close>\<close>
  "stretched_length l rate =
     (if rate = 0 then Inl NonFiniteToLong else Inr (to_long (real_of_int l / rate) + 1))"

definition stretch_lengths :: "int list \<Rightarrow> real \<Rightarrow> error + int list" where
  \<comment> \<open>\<^verbatim>\<open>(lengths.float()/rate).long()+1\<close>\<close>
  "stretch_lengths lengths rate = map_err (\<lambda>l. stretched_length l rate) lengths"

text \<open>
  The signal-processing stages come from the library \<^verbatim>\<open>torchaudio_contrib\<close>, which is not
  part of the repository. Their computations are parameters of the model; they are taken
  to return. What the constructors store is modelled from the specification.
\<close>

record contrib =
  stft_call :: "int \<Rightarrow> int \<Rightarrow> tensor \<Rightarrow> tensor"
  time_stretch_call :: "int \<Rightarrow> int \<Rightarrow> tensor \<Rightarrow> real \<Rightarrow> tensor"
  complex_norm_call :: "real \<Rightarrow> tensor \<Rightarrow> tensor"
  get_filterbank :: "int \<Rightarrow> real \<Rightarrow> tensor"
  apply_filterbank_call :: "tensor \<Rightarrow> tensor \<Rightarrow> tensor"

record STFT =
  stft_fft_length :: int
  stft_hop_length :: int

definition STFT_init :: "int \<Rightarrow> int option \<Rightarrow> STFT" where
  \<comment> \<open>Modelled from the spec: the constructor of \<^verbatim>\<open>torchaudio_contrib.STFT\<close>, which keeps
      its arguments; "Hop length defaults to fft_length/4 when unspecified".\<close>
  "STFT_init fft_len hop_len =
     \<lparr>stft_fft_length = fft_len,
      stft_hop_length = (case hop_len of None \<Rightarrow> fft_len div 4 | Some h \<Rightarrow> h)\<rparr>"

record TimeStretch =
  pv_hop_length :: int
  pv_num_freqs :: int

datatype normalizer = Spec_whiten | Amplitude_to_db

record MelspectrogramStretch =
  prob :: real
  dist :: "real \<times> real"
  norm :: "normalizer option"
  stft :: STFT
  pv :: TimeStretch
  cn :: real
  app_fb :: tensor
  fft_length :: int
  hop_length :: int
  num_mels :: int
  stretch_param :: "real list"
  counter :: int

definition select_norm :: "string \<Rightarrow> normalizer option" where
  \<comment> \<open>\<^verbatim>\<open>{'whiten': spec_whiten, 'db': amplitude_to_db}.get(norm, None)\<close>\<close>
  "select_norm name =
     (if name = ''whiten'' then Some Spec_whiten
      else if name = ''db'' then Some Amplitude_to_db
      else None)"

definition init ::
  "contrib \<Rightarrow> int option \<Rightarrow> int \<Rightarrow> int \<Rightarrow> string \<Rightarrow> real list \<Rightarrow> error + MelspectrogramStretch" where
  \<comment> \<open>\<^verbatim>\<open>__init__(self, hop_length, num_mels, fft_length, norm, stretch_param)\<close>;
      \<open>dist\<close> holds the bounds of \<^verbatim>\<open>Uniform(-stretch_param[1], stretch_param[1])\<close>\<close>
  "init lib hop_len n_mels fft_len norm_name stretch_par =
     (case stretch_par of
        p # b # _ \<Rightarrow>
          let st = STFT_init fft_len (Some (fft_len div 4))
          in Inr \<lparr>prob = p,
                  dist = (- b, b),
                  norm = select_norm norm_name,
                  stft = st,
                  pv = \<lparr>pv_hop_length = stft_hop_length st, pv_num_freqs = fft_len div 2 + 1\<rparr>,
                  cn = 2,
                  app_fb = get_filterbank lib n_mels 1,
                  fft_length = fft_len,
                  hop_length = stft_hop_length st,
                  num_mels = n_mels,
                  stretch_param = stretch_par,
                  counter = 0\<rparr>
      | _ \<Rightarrow> Inl IndexError)"

datatype returned = Features tensor | FeaturesLengths tensor "int list"



definition stft_stage :: "contrib \<Rightarrow> MelspectrogramStretch \<Rightarrow> tensor \<Rightarrow> tensor" where
  \<comment> \<open>\<^verbatim>\<open>self.stft(x)\<close>\<close>
  "stft_stage lib m x = stft_call lib (stft_fft_length (stft m)) (stft_hop_length (stft m)) x"

definition frame_lengths :: "MelspectrogramStretch \<Rightarrow> int list option \<Rightarrow> error + int list option" where
  \<comment> \<open>\<^verbatim>\<open>if lengths is not None: lengths = _num_stft_bins(lengths, ...)\<close>\<close>
  "frame_lengths m lengths =
     (case lengths of
        None \<Rightarrow> Inr None
      | Some ls \<Rightarrow>
          (case num_stft_bins ls (fft_length m) (hop_length m) (fft_length m div 2) of
             Inl e \<Rightarrow> Inl e
           | Inr ls' \<Rightarrow> Inr (Some ls')))"

definition stretch_stage ::
  "contrib \<Rightarrow> MelspectrogramStretch \<Rightarrow> bool \<Rightarrow> real \<Rightarrow> real \<Rightarrow> tensor \<Rightarrow> int list option
     \<Rightarrow> error + tensor \<times> int list option" where
  \<comment> \<open>\<^verbatim>\<open>if torch.rand(1)[0] <= self.prob and self.training: ...\<close>. \<open>training\<close> is
      \<^verbatim>\<open>self.training\<close>, \<open>rnd\<close> the value of \<^verbatim>\<open>torch.rand(1)[0]\<close> and \<open>u\<close> the value of
      \<^verbatim>\<open>self.dist.sample()\<close> in this call.\<close>
  "stretch_stage lib m training rnd u x lengths =
     (if rnd \<le> prob m \<and> training then
        (let rate = 1 - u;
             x' = time_stretch_call lib (pv_hop_length (pv m)) (pv_num_freqs (pv m)) x rate
         in case lengths of
              None \<Rightarrow> Inl AttributeError
            | Some ls \<Rightarrow>
                (case stretch_lengths ls rate of
                   Inl e \<Rightarrow> Inl e
                 | Inr ls' \<Rightarrow> Inr (x', Some ls')))
      else Inr (x, lengths))"

definition mel_stage :: "contrib \<Rightarrow> MelspectrogramStretch \<Rightarrow> tensor \<Rightarrow> tensor" where
  \<comment> \<open>\<^verbatim>\<open>self.app_fb(self.cn(x))\<close>\<close>
  "mel_stage lib m x = apply_filterbank_call lib (app_fb m) (complex_norm_call lib (cn m) x)"

definition call_norm :: "normalizer \<Rightarrow> tensor \<Rightarrow> error + tensor" where
  \<comment> \<open>\<^verbatim>\<open>self.norm(x)\<close>: the normalizer is called with its default arguments\<close>
  "call_norm f x =
     (case f of
        Spec_whiten \<Rightarrow> spec_whiten x 1
      | Amplitude_to_db \<Rightarrow> amplitude_to_db x (RefValue 1) (1 / 10 ^ 10) (Some 80))"

definition norm_stage :: "MelspectrogramStretch \<Rightarrow> tensor \<Rightarrow> error + tensor" where
  \<comment> \<open>\<^verbatim>\<open>if self.norm is not None: x = self.norm(x)\<close>\<close>
  "norm_stage m x = (case norm m of None \<Rightarrow> Inr x | Some f \<Rightarrow> call_norm f x)"

definition pack :: "tensor \<Rightarrow> int list option \<Rightarrow> returned" where
  \<comment> \<open>\<^verbatim>\<open>if lengths is not None: return x, lengths\<close>, else \<^verbatim>\<open>return x\<close>\<close>
  "pack x lengths = (case lengths of None \<Rightarrow> Features x | Some ls \<Rightarrow> FeaturesLengths x ls)"

definition forward ::
  "contrib \<Rightarrow> MelspectrogramStretch \<Rightarrow> bool \<Rightarrow> real \<Rightarrow> real \<Rightarrow> tensor \<Rightarrow> int list option
     \<Rightarrow> error + returned" where
  \<comment> \<open>\<^verbatim>\<open>forward(self, x, lengths=None)\<close>, with the mode flag and the two random draws of
      the call as arguments\<close>
  "forward lib m training rnd u x lengths =
     (let x1 = stft_stage lib m x
      in case frame_lengths m lengths of
           Inl e \<Rightarrow> Inl e
         | Inr lengths1 \<Rightarrow>
             (case stretch_stage lib m training rnd u x1 lengths1 of
                Inl e \<Rightarrow> Inl e
              | Inr (x2, lengths2) \<Rightarrow>
                  (case norm_stage m (mel_stage lib m x2) of
                     Inl e \<Rightarrow> Inl e
                   | Inr x3 \<Rightarrow> Inr (pack x3 lengths2))))"

subsection \<open>A stand-in for the library\<close>

definition zeros :: "nat list \<Rightarrow> tensor" where
  "zeros s = \<lparr>shape = s, data = replicate (prod_list s) 0\<rparr>"

definition silent_lib :: contrib where
  \<comment> \<open>Modelled from the spec: a stand-in for \<^verbatim>\<open>torchaudio_contrib\<close> whose stages return
      all-zero tensors of the shapes the specification gives: the STFT tensor has the axes
      batch, \<open>fft_length/2 + 1\<close> frequency bins, \<open>floor((L + 2 pad - fft_length) / hop_length) + 1\<close>
      frames and 2 components; the time-stretcher turns \<open>T\<close> frames into \<open>floor(T / r)\<close>;
      the complex norm drops the component axis; the filterbank has one row per mel bin and
      replaces the frequency axis. It is the library of the concrete instances below.\<close>
  "silent_lib =
     \<lparr>stft_call = (\<lambda>fft_len hop_len x.
        zeros (butlast (shape x) @
               [nat (fft_len div 2 + 1),
                nat ((int (last (shape x)) + 2 * (fft_len div 2) - fft_len) div hop_len + 1),
                2])),
      time_stretch_call = (\<lambda>hop_len n_freqs x rate.
        zeros ((shape x)[length (shape x) - 2 :=
                 nat \<lfloor>real (shape x ! (length (shape x) - 2)) / rate\<rfloor>])),
      complex_norm_call = (\<lambda>p x. zeros (butlast (shape x))),
      get_filterbank = (\<lambda>n_mels max_freq. zeros [nat n_mels, 1]),
      apply_filterbank_call = (\<lambda>fb x.
        zeros ((shape x)[length (shape x) - 2 := hd (shape fb)]))\<rparr>"

definition example_module :: "string \<Rightarrow> MelspectrogramStretch" where
  \<comment> \<open>what \<open>init silent_lib hop 2 8 norm_name [1, 2 / 5]\<close> builds: an FFT length of 8, two mel
      bins and a stretch probability of 1\<close>
  "example_module norm_name =
     \<lparr>prob = 1, dist = (- (2 / 5), 2 / 5), norm = select_norm norm_name,
      stft = \<lparr>stft_fft_length = 8, stft_hop_length = 2\<rparr>,
      pv = \<lparr>pv_hop_length = 2, pv_num_freqs = 5\<rparr>,
      cn = 2, app_fb = zeros [2, 1], fft_length = 8, hop_length = 2, num_mels = 2,
      stretch_param = [1, 2 / 5], counter = 0\<rparr>"

section \<open>Length bookkeeping\<close>

lemma map_err_Inr:
  "(\<And>x. x \<in> set xs \<Longrightarrow> f x = Inr (g x)) \<Longrightarrow> map_err f xs = Inr (map g xs)"
  by (induction xs) (simp_all add: map_err_def)

lemma num_stft_bins_Inr:
  "hop \<noteq> 0 \<Longrightarrow>
   num_stft_bins ls fft hop pad = Inr (map (\<lambda>l. (l + 2 * pad - fft + hop) div hop) ls)"
  unfolding num_stft_bins_def by (rule map_err_Inr) simp

lemma frame_lengths_Some:
  "hop_length m \<noteq> 0 \<Longrightarrow>
   frame_lengths m (Some ls) =
     Inr (Some (map (\<lambda>L. (L + 2 * (fft_length m div 2) - fft_length m + hop_length m)
                            div hop_length m) ls))"
  by (simp add: frame_lengths_def num_stft_bins_Inr)

lemma to_long_floor: "0 \<le> x \<Longrightarrow> to_long x = \<lfloor>x\<rfloor>"
  by (simp add: to_long_def)




lemma stretch_lengths_floor:
  assumes "0 < rate" and "\<forall>l \<in> set ls. 0 \<le> l"
  shows "stretch_lengths ls rate = Inr (map (\<lambda>old. \<lfloor>real_of_int old / rate\<rfloor> + 1) ls)"
  unfolding stretch_lengths_def
proof (rule map_err_Inr)
  fix l assume "l \<in> set ls"
  then have "0 \<le> real_of_int l / rate" using assms by simp
  then show "stretched_length l rate = Inr (\<lfloor>real_of_int l / rate\<rfloor> + 1)"
    using assms(1) by (simp add: stretched_length_def to_long_floor)
qed

section \<open>The stages of forward\<close>

lemma stretch_stage_skipped:
  "\<not> (rnd \<le> prob m \<and> training) \<Longrightarrow> stretch_stage lib m training rnd u y ls = Inr (y, ls)"
  unfolding stretch_stage_def by (rule if_not_P)

lemma stretch_stage_taken:
  "training \<Longrightarrow> rnd \<le> prob m \<Longrightarrow>
   stretch_stage lib m training rnd u y ls =
     (case ls of
        None \<Rightarrow> Inl AttributeError
      | Some l \<Rightarrow>
          (case stretch_lengths l (1 - u) of
             Inl e \<Rightarrow> Inl e
           | Inr l' \<Rightarrow>
               Inr (time_stretch_call lib (pv_hop_length (pv m)) (pv_num_freqs (pv m)) y (1 - u),
                    Some l')))"
  by (simp add: stretch_stage_def Let_def)



subsection \<open>The example module on the stand-in library\<close>

lemma example_module_init:
  "init silent_lib hop 2 8 norm_name [1, 2 / 5] = Inr (example_module norm_name)"
  by (simp add: init_def example_module_def STFT_init_def silent_lib_def)

lemma example_frames: "frame_lengths (example_module nm) (Some [16, 8]) = Inr (Some [9, 5])"
proof -
  have "hop_length (example_module nm) \<noteq> 0" by (simp add: example_module_def)
  from frame_lengths_Some[OF this] show ?thesis by (simp add: example_module_def)
qed

lemma example_stretched: "stretch_lengths [9, 5] (1 - 1 / 5) = Inr [12, 7]"
proof -
  have a: "\<lfloor>real_of_int 9 / (4 / 5)\<rfloor> = 11" by (simp add: floor_eq_iff)
  have b: "\<lfloor>real_of_int 5 / (4 / 5)\<rfloor> = 6" by (simp add: floor_eq_iff)
  show ?thesis using a b by (simp add: stretch_lengths_floor)
qed

lemma example_stft:
  "stft_stage silent_lib (example_module nm) (zeros [2, 16]) = zeros [2, 5, 9, 2]"
  by (simp add: stft_stage_def silent_lib_def example_module_def zeros_def)

lemma example_time_stretch:
  "time_stretch_call silent_lib (pv_hop_length (pv (example_module nm)))
     (pv_num_freqs (pv (example_module nm))) (zeros [2, 5, 9, 2]) (1 - 1 / 5)
   = zeros [2, 5, 11, 2]"
proof -
  have "\<lfloor>(9::real) / (4 / 5)\<rfloor> = 11" by (simp add: floor_eq_iff)
  then show ?thesis by (simp add: silent_lib_def zeros_def)
qed

lemma example_mel:
  "mel_stage silent_lib (example_module nm) (zeros [2, 5, t, 2]) = zeros [2, 2, t]"
  by (simp add: mel_stage_def silent_lib_def example_module_def zeros_def)


section \<open>Claims about lengths, modes and construction\<close>





text \<open>
  Claim C4. In inference mode forward is the pipeline without the time-stretcher, whatever
  the two random draws are: the lengths are the framed ones and the features come from the
  STFT tensor itself. In training mode with a stretch probability of 1 and a draw
  \<open>rnd \<le> 1\<close> (\<^verbatim>\<open>torch.rand\<close> draws from \<open>[0, 1)\<close>), the rate \<open>1 - u\<close> is used in every call:
  the features come from the stretched STFT tensor and the lengths from the stretched
  lengths.
\<close>

theorem mode_gating:
  "forward lib m False rnd u x lengths =
     (case frame_lengths m lengths of
        Inl e \<Rightarrow> Inl e
      | Inr lengths1 \<Rightarrow>
          (case norm_stage m (mel_stage lib m (stft_stage lib m x)) of
             Inl e \<Rightarrow> Inl e
           | Inr y \<Rightarrow> Inr (pack y lengths1)))
   \<and> (prob m = 1 \<and> rnd \<le> 1 \<longrightarrow>
        forward lib m True rnd u x lengths =
          (case frame_lengths m lengths of
             Inl e \<Rightarrow> Inl e
           | Inr None \<Rightarrow> Inl AttributeError
           | Inr (Some lengths1) \<Rightarrow>
               (case stretch_lengths lengths1 (1 - u) of
                  Inl e \<Rightarrow> Inl e
                | Inr lengths2 \<Rightarrow>
                    (case norm_stage m (mel_stage lib m
                            (time_stretch_call lib (pv_hop_length (pv m)) (pv_num_freqs (pv m))
                               (stft_stage lib m x) (1 - u))) of
                       Inl e \<Rightarrow> Inl e
                     | Inr y \<Rightarrow> Inr (FeaturesLengths y lengths2)))))"
proof (cases "frame_lengths m lengths")
  case (Inl e)
  then show ?thesis by (simp add: forward_def)
next
  case (Inr lengths1)
  then show ?thesis
    by (auto simp: forward_def stretch_stage_skipped stretch_stage_taken pack_def
             split: option.splits sum.splits)
qed

theorem mode_gating_witness:
  "prob (example_module ''none'') = 1 \<and> (1 / 2 :: real) \<le> 1
   \<and> forward silent_lib (example_module ''none'') False (1 / 2) (1 / 5) (zeros [2, 16])
        (Some [16, 8])
       = Inr (FeaturesLengths (zeros [2, 2, 9]) [9, 5])
   \<and> forward silent_lib (example_module ''none'') True (1 / 2) (1 / 5) (zeros [2, 16])
        (Some [16, 8])
       = Inr (FeaturesLengths (zeros [2, 2, 11]) [12, 7])"
proof -
  let ?m = "example_module ''none''"
  have nm: "\<And>t. norm_stage ?m t = Inr t"
    by (simp add: norm_stage_def example_module_def select_norm_def)
  have p: "prob ?m = 1 \<and> (1 / 2 :: real) \<le> 1" by (simp add: example_module_def)
  have ts: "time_stretch_call silent_lib (pv_hop_length (pv ?m)) (pv_num_freqs (pv ?m))
              (zeros [2, 5, 9, 2]) (4 / 5) = zeros [2, 5, 11, 2]"
    using example_time_stretch[of "''none''"] by simp
  have sl: "stretch_lengths [9, 5] (4 / 5) = Inr [12, 7]"
    using example_stretched by simp
  show ?thesis
    using mode_gating[where lib = silent_lib and m = ?m and x = "zeros [2, 16]"
            and lengths = "Some [16, 8]" and rnd = "1 / 2" and u = "1 / 5"] p
    by (simp add: example_frames example_stft example_mel nm pack_def ts sl)
qed



text \<open>
  Claim C9. The constructor ignores its argument \<^verbatim>\<open>hop_length\<close>: any value builds the module
  that \<^verbatim>\<open>None\<close> builds, and the hop length kept by the module, by its STFT and by its
  time-stretcher is \<open>fft_length // 4\<close>.
\<close>

theorem hop_length_argument_ignored:
  "init lib hop n_mels fft nm sp = init lib None n_mels fft nm sp
   \<and> (\<forall>m. init lib hop n_mels fft nm sp = Inr m \<longrightarrow>
          hop_length m = fft div 4 \<and> stft_hop_length (stft m) = fft div 4
        \<and> pv_hop_length (pv m) = fft div 4)"
  by (auto simp: init_def STFT_init_def split: list.splits)

theorem hop_length_argument_ignored_witness:
  "init silent_lib (Some 3) 2 8 ''db'' [1, 2 / 5] = Inr (example_module ''db'')
   \<and> hop_length (example_module ''db'') = 8 div 4
   \<and> stft_hop_length (stft (example_module ''db'')) = 8 div 4
   \<and> pv_hop_length (pv (example_module ''db'')) = 8 div 4"
  using hop_length_argument_ignored[of silent_lib "Some 3" 2 8 "''db''" "[1, 2 / 5]"]
  by (simp add: example_module_init)

text \<open>
  Claim C10. A training-mode call without lengths that takes the stretch branch
  (\<open>rnd \<le> prob\<close>) fails: after the time-stretcher has run, \<^verbatim>\<open>lengths.float()\<close> is evaluated
  on \<^verbatim>\<open>None\<close>.
\<close>

theorem forward_without_lengths_fails:
  assumes "training" and "rnd \<le> prob m"
  shows "forward lib m training rnd u x None = Inl AttributeError"
  using assms by (simp add: forward_def frame_lengths_def stretch_stage_def)

theorem forward_without_lengths_fails_witness:
  "1 / 2 \<le> prob (example_module ''whiten'')
   \<and> forward silent_lib (example_module ''whiten'') True (1 / 2) (1 / 5) (zeros [2, 16]) None
       = Inl AttributeError"
proof -
  have h: "(1 / 2 :: real) \<le> prob (example_module ''whiten'')"
    by (simp add: example_module_def)
  show ?thesis using forward_without_lengths_fails[OF TrueI h] h by simp
qed

section \<open>Broadcasting against a scalar\<close>

lemma broadcast_dims_ones: "broadcast_dims s (replicate (length s) (Suc 0)) = Some s"
  by (induction s) auto

lemma rows_Suc: "rows (Suc k) n xs = rows k n xs @ [take n (drop (k * n) xs)]"
  by (simp add: rows_def)

lemma concat_rows: "concat (rows k n xs) = take (k * n) xs"
proof (induction k)
  case 0
  show ?case by (simp add: rows_def)
next
  case (Suc k)
  have "take (k * n) xs @ take n (drop (k * n) xs) = take (k * n + n) xs"
    by (simp add: take_add)
  then show ?case by (simp add: rows_Suc Suc add.commute)
qed

lemma length_rows_elem: "length xs = k * n \<Longrightarrow> r \<in> set (rows k n xs) \<Longrightarrow> length r = n"
proof -
  assume l: "length xs = k * n" and "r \<in> set (rows k n xs)"
  then obtain i where i: "i < k" and r: "r = take n (drop (i * n) xs)"
    by (auto simp: rows_def)
  have "i * n + n \<le> k * n" using i
    by (metis Suc_leI mult_Suc mult_le_mono1 add.commute)
  then show ?thesis using l by (simp add: r)
qed

lemma expand_self: "length xs = prod_list s \<Longrightarrow> expand s s xs = xs"
proof (induction s arbitrary: xs)
  case Nil
  then show ?case by simp
next
  case (Cons d s)
  have "map (expand s s) (rows d (prod_list s) xs) = rows d (prod_list s) xs"
    using Cons by (intro map_idI) (auto dest: length_rows_elem[rotated])
  then show ?case using Cons.prems by (simp add: concat_rows)
qed

lemma rows_one: "rows (Suc 0) n xs = [take n xs]"
  by (simp add: rows_def)

lemma expand_ones: "expand (replicate (length s) (Suc 0)) s [r] = replicate (prod_list s) r"
proof (induction s)
  case Nil
  show ?case by simp
next
  case (Cons d s)
  show ?case
  proof (cases "d = 1")
    case True
    then show ?thesis using Cons by (simp add: rows_one)
  next
    case False
    have "concat (replicate d (replicate (prod_list s) r)) = replicate (d * prod_list s) r"
      by (induction d) (simp_all add: replicate_add)
    then show ?thesis using False Cons by auto
  qed
qed

lemma broadcast_shapes_scalar: "broadcast_shapes s [] = Some s"
  by (simp add: broadcast_shapes_def pad_shape_def broadcast_dims_ones)

lemma map2_replicate: "length xs = n \<Longrightarrow> map2 f xs (replicate n c) = map (\<lambda>x. f x c) xs"
  by (induction xs arbitrary: n) auto

lemma isub_scalar:
  assumes "wellformed a"
  shows "isub a \<lparr>shape = [], data = [c]\<rparr> = Inr (tmap (\<lambda>x. x - c) a)"
  using assms
  by (simp add: isub_def broadcast_op_def broadcast_shapes_scalar pad_shape_def expand_self
      expand_ones map2_replicate wellformed_def tmap_def)





lemma power_to_db_unfold:
  assumes "0 < amin"
  shows "power_to_db spec (RefValue r) amin top_db =
     (case isub (tmap (\<lambda>x. 10 * log10 x) (clamp_min spec amin))
                \<lparr>shape = [], data = [10 * log10 (max r amin)]\<rparr> of
        Inl e \<Rightarrow> Inl e
      | Inr log_spec \<Rightarrow>
          (case top_db of
             None \<Rightarrow> Inr log_spec
           | Some t \<Rightarrow>
               if t < 0 then Inl NameError
               else (case tmax log_spec of
                       Inl e \<Rightarrow> Inl e
                     | Inr m \<Rightarrow> Inr (clamp_min log_spec (m - t)))))"
  using assms by (simp add: power_to_db_def scalar_def clamp_min_def tmap_def)

lemma wellformed_tmap: "wellformed (tmap f t) = wellformed t"
  by (simp add: wellformed_def tmap_def)

lemma tmap_tmap: "tmap f (tmap g t) = tmap (\<lambda>x. f (g x)) t"
  by (simp add: tmap_def comp_def)

lemma power_to_db_log_spec:
  assumes "wellformed spec"
  shows "isub (tmap (\<lambda>x. 10 * log10 x) (clamp_min spec amin))
              \<lparr>shape = [], data = [10 * log10 (max r amin)]\<rparr>
         = Inr (tmap (\<lambda>x. 10 * log10 (max x amin) - 10 * log10 (max r amin)) spec)"
  using assms by (simp add: isub_scalar wellformed_tmap clamp_min_def tmap_tmap)

lemma power_to_db_unclamped:
  assumes "wellformed spec" and "0 < amin"
  shows "power_to_db spec (RefValue r) amin None
         = Inr (tmap (\<lambda>x. 10 * log10 (max x amin) - 10 * log10 (max r amin)) spec)"
  by (simp add: power_to_db_unfold[OF assms(2)] power_to_db_log_spec[OF assms(1)])

lemma data_tmap: "data (tmap f t) = map f (data t)"
  by (simp add: tmap_def)


lemma power_to_db_clamped:
  assumes "wellformed spec" and "0 < amin" and "0 \<le> t" and "data spec \<noteq> []"
  shows "power_to_db spec (RefValue r) amin (Some t)
         = Inr (clamp_min (tmap (\<lambda>x. 10 * log10 (max x amin) - 10 * log10 (max r amin)) spec)
                  (Max (set (map (\<lambda>x. 10 * log10 (max x amin) - 10 * log10 (max r amin))
                               (data spec))) - t))"
proof -
  have "\<not> t < 0" using assms(3) by simp
  then show ?thesis
    unfolding power_to_db_unfold[OF assms(2)] power_to_db_log_spec[OF assms(1)]
    using assms(4) by (simp add: tmax_def data_tmap)
qed


lemma power_to_db_amin: "amin \<le> 0 \<Longrightarrow> power_to_db spec ref amin top_db = Inl NameError"
  by (simp add: power_to_db_def)

lemma power_to_db_top_db:
  assumes "wellformed spec" and "0 < amin" and "t < 0"
  shows "power_to_db spec (RefValue r) amin (Some t) = Inl NameError"
  unfolding power_to_db_unfold[OF assms(2)] power_to_db_log_spec[OF assms(1)]
  using assms(3) by simp

lemma power_to_db_empty:
  assumes "wellformed spec" and "0 < amin" and "0 \<le> t" and "data spec = []"
  shows "power_to_db spec (RefValue r) amin (Some t) = Inl RuntimeError"
proof -
  have "\<not> t < 0" using assms(3) by simp
  then show ?thesis
    unfolding power_to_db_unfold[OF assms(2)] power_to_db_log_spec[OF assms(1)]
    using assms(4) by (simp add: tmax_def data_tmap)
qed




section \<open>Claims about the decibel normalizer\<close>




text \<open>
  Claim C7, as amended. With a scalar reference and a non-empty spectrogram \<^verbatim>\<open>power_to_db\<close>
  fails exactly when \<open>amin \<le> 0\<close> or a \<open>top_db\<close> that is not \<^verbatim>\<open>None\<close> is negative; with
  \<open>amin \<le> 0\<close> it fails on every input; on an empty spectrogram it fails as well when
  \<open>amin > 0\<close> and \<open>top_db \<ge> 0\<close>, in the maximum of an empty tensor.
\<close>

theorem power_to_db_fails_iff:
  assumes "wellformed spec"
  shows "(data spec \<noteq> [] \<longrightarrow>
           ((\<exists>e. power_to_db spec (RefValue r) amin top_db = Inl e)
            \<longleftrightarrow> (amin \<le> 0 \<or> (\<exists>t. top_db = Some t \<and> t < 0))))
       \<and> (amin \<le> 0 \<longrightarrow> (\<exists>e. power_to_db spec ref amin top_db = Inl e))
       \<and> (data spec = [] \<and> 0 < amin \<and> top_db = Some t \<and> 0 \<le> t \<longrightarrow>
            power_to_db spec (RefValue r) amin top_db = Inl RuntimeError)"
proof (intro conjI impI)
  assume ne: "data spec \<noteq> []"
  show "(\<exists>e. power_to_db spec (RefValue r) amin top_db = Inl e)
            \<longleftrightarrow> (amin \<le> 0 \<or> (\<exists>t. top_db = Some t \<and> t < 0))"
  proof (cases "amin \<le> 0")
    case True
    then show ?thesis by (simp add: power_to_db_amin)
  next
    case False
    then have pos: "0 < amin" by simp
    show ?thesis
    proof (cases top_db)
      case None
      then show ?thesis using False by (simp add: power_to_db_unclamped[OF assms pos])
    next
      case (Some t')
      show ?thesis
      proof (cases "t' < 0")
        case True
        then show ?thesis using Some by (simp add: power_to_db_top_db[OF assms pos])
      next
        case neg: False
        then have "0 \<le> t'" by simp
        from power_to_db_clamped[OF assms pos this ne] show ?thesis
          using Some False neg by simp
      qed
    qed
  qed
next
  assume "amin \<le> 0"
  then show "\<exists>e. power_to_db spec ref amin top_db = Inl e" by (simp add: power_to_db_amin)
next
  assume "data spec = [] \<and> 0 < amin \<and> top_db = Some t \<and> 0 \<le> t"
  then show "power_to_db spec (RefValue r) amin top_db = Inl RuntimeError"
    using power_to_db_empty[OF assms] by simp
qed

theorem power_to_db_fails_iff_witness:
  "wellformed \<lparr>shape = [1, 2], data = [1, 100]\<rparr>
   \<and> data \<lparr>shape = [1, 2], data = [1, 100]\<rparr> \<noteq> []
   \<and> (\<nexists>e. power_to_db \<lparr>shape = [1, 2], data = [1, 100]\<rparr> (RefValue 1) (1 / 10 ^ 10) (Some 80)
             = Inl e)
   \<and> (\<exists>e. power_to_db \<lparr>shape = [1, 2], data = [1, 100]\<rparr> (RefValue 1) 0 (Some 80) = Inl e)
   \<and> (\<exists>e. power_to_db \<lparr>shape = [1, 2], data = [1, 100]\<rparr> (RefValue 1) (1 / 10 ^ 10) (Some (- 1))
             = Inl e)"
proof -
  let ?t = "\<lparr>shape = [1, 2], data = [1, 100]\<rparr>"
  have w: "wellformed ?t" by (simp add: wellformed_def)
  have a: "\<nexists>e. power_to_db ?t (RefValue 1) (1 / 10 ^ 10) (Some 80) = Inl e"
    using power_to_db_fails_iff[OF w, of 1 "1 / 10 ^ 10" "Some 80" "RefValue 1" 80] by simp
  have b: "\<exists>e. power_to_db ?t (RefValue 1) 0 (Some 80) = Inl e"
    using power_to_db_fails_iff[OF w, of 1 0 "Some 80" "RefValue 1" 80] by simp
  have c: "\<exists>e. power_to_db ?t (RefValue 1) (1 / 10 ^ 10) (Some (- 1)) = Inl e"
    using power_to_db_fails_iff[OF w, of 1 "1 / 10 ^ 10" "Some (- 1)" "RefValue 1" 80] by simp
  show ?thesis using w a b c by simp
qed

text \<open>
  The claim as stated fails: with the default \<open>amin\<close> and \<open>top_db\<close> an empty spectrogram
  makes \<^verbatim>\<open>power_to_db\<close> fail.
\<close>

theorem power_to_db_fails_on_empty:
  "power_to_db \<lparr>shape = [0], data = []\<rparr> (RefValue 1) (1 / 10 ^ 10) (Some 80) = Inl RuntimeError
   \<and> \<not> (1 / 10 ^ 10 \<le> (0::real)) \<and> \<not> ((80::real) < 0)"
proof -
  have w: "wellformed \<lparr>shape = [0], data = []\<rparr>" by (simp add: wellformed_def)
  have "power_to_db \<lparr>shape = [0], data = []\<rparr> (RefValue 1) (1 / 10 ^ 10) (Some 80) = Inl RuntimeError"
    by (rule power_to_db_empty[OF w]) simp_all
  then show ?thesis by simp
qed

section \<open>Shapes through the normalizers\<close>






















section \<open>Claim about the shape of the features\<close>





section \<open>Broadcasting a column of statistics\<close>

























section \<open>Claim about whitening\<close>




end
